theory Spec2Isabelle
  imports Main "HOL-Library.Sublist"
begin

section \<open>The session module of PyWebIO (pywebio/session/__init__.py)\<close>

text \<open>
  The module keeps a process-wide list of the session implementations in use
  (\<^verbatim>\<open>_active_session_cls\<close>), resolves the implementation of the calling context, and
  builds the interactive functions (\<^verbatim>\<open>hold\<close>, \<^verbatim>\<open>eval_js\<close>, \<^verbatim>\<open>set_env\<close>, ...) on
  top of it. The embedding passes the process state explicitly, turns every \<^verbatim>\<open>raise\<close> into
  the left injection of a sum, and takes the collaborators that live in other modules
  (the session classes, the transport, helpers of \<^verbatim>\<open>utils\<close>) as an environment.
\<close>

subsection \<open>Classes, exceptions and values\<close>

text \<open>The three session classes imported at lines 25-26.\<close>

datatype session_cls = CoroutineBasedSession | ThreadBasedSession | ScriptModeSession

text \<open>\<^verbatim>\<open>getattr(cls, '__name__', str(cls))\<close> of a session class.\<close>

fun cls_name :: "session_cls \<Rightarrow> string" where
  "cls_name CoroutineBasedSession = ''CoroutineBasedSession''"
| "cls_name ThreadBasedSession = ''ThreadBasedSession''"
| "cls_name ScriptModeSession = ''ScriptModeSession''"

text \<open>
  Modelled from the spec: the exception classes of pywebio/exceptions.py, which is not among
  the sources (line 27 imports \<^verbatim>\<open>SessionNotFoundException\<close> and \<^verbatim>\<open>SessionException\<close>).
  Section 7 of the spec names the session conditions: session-not-found and session-closed;
  \<^verbatim>\<open>SessionException\<close> is their base class, so \<^verbatim>\<open>except SessionException\<close> catches all
  three, and \<^verbatim>\<open>except SessionNotFoundException\<close> catches that one alone.
  \<^verbatim>\<open>RuntimeError\<close>, \<^verbatim>\<open>AssertionError\<close> and \<^verbatim>\<open>TypeError\<close> are Python's own;
  \<^verbatim>\<open>OtherError\<close> stands for any other exception a collaborator raises.
\<close>

datatype exn =
    SessionException
  | SessionClosedException
  | SessionNotFoundException
  | RuntimeError string
  | AssertionError string
  | TypeError string
  | OtherError string


fun is_SessionNotFoundException :: "exn \<Rightarrow> bool" where
  "is_SessionNotFoundException SessionNotFoundException = True"
| "is_SessionNotFoundException _ = False"

text \<open>JSON-serialisable Python values: message specs and event payloads.\<close>

datatype py_val =
    PNone
  | PBool bool
  | PInt int
  | PStr string
  | PList "py_val list"
  | PDict "(string \<times> py_val) list"

text \<open>
  A client event (spec, section 3): an event kind and a payload, with the task it is
  addressed to. Python reads it as \<^verbatim>\<open>res['event']\<close> and \<^verbatim>\<open>res['data']\<close>.
\<close>

record client_event =
  event :: string
  task_id :: string
  data :: py_val

text \<open>An outbound message: \<^verbatim>\<open>send_msg(cmd, spec=...)\<close>.\<close>

datatype msg = Msg string py_val

subsection \<open>Process state and environment\<close>

text \<open>
  The state the module reads and writes: the registry \<^verbatim>\<open>_active_session_cls\<close> (line 31),
  the messages sent so far, each with the session it was sent on, and \<open>ext\<close>, the state of
  the collaborators (the sessions' lookup tables and inbound queues, the transport).
\<close>

record ('x, 's) world =
  active_session_cls :: "session_cls list"
  outbox :: "('s \<times> msg) list"
  ext :: 'x

text \<open>
  The objects that pass between a generator and its driver: a plain value, a client event,
  the coroutine object that \<^verbatim>\<open>next_client_event()\<close> returns under the coroutine-backed
  class, and any other object of a collaborator (a future, say), known by a number.
\<close>

datatype obj = Val py_val | Event client_event | NextClientEventCoroutine | Opaque nat

text \<open>
  What the module calls in modules that are not among the sources, taken as parameters:
  \<^item> \<open>start_server_in_current_thread_session\<close> (platform.tornado), called by
    \<^verbatim>\<open>_start_script_mode_server\<close>;
  \<^item> \<open>cls_get_current_session cls\<close>: the class method \<^verbatim>\<open>cls.get_current_session()\<close>, a pure
    lookup (spec, section 5) that returns the session of the calling execution unit or
    raises: \<^verbatim>\<open>SessionNotFoundException\<close> when the class knows no session for the caller,
    or any other exception;
  \<^item> \<open>session_next_client_event s\<close>: the method \<^verbatim>\<open>s.next_client_event()\<close>, which returns an
    object or raises;
  \<^item> \<open>derives_from c d\<close>: class \<open>c\<close> is declared as a proper subclass of \<open>d\<close>;
  \<^item> \<open>repr\<close>: Python's \<^verbatim>\<open>repr\<close> of a string (the \<^verbatim>\<open>%r\<close> conversion).
\<close>

record ('x, 's) env =
  start_server_in_current_thread_session :: "'x \<Rightarrow> 'x"
  cls_get_current_session :: "session_cls \<Rightarrow> 'x \<Rightarrow> exn + 's"
  session_next_client_event :: "'s \<Rightarrow> 'x \<Rightarrow> (exn + obj) \<times> 'x"
  derives_from :: "session_cls \<Rightarrow> session_cls \<Rightarrow> bool"
  repr :: "string \<Rightarrow> string"

subsection \<open>Registration and resolution (lines 37-84)\<close>

text \<open>
  \<^verbatim>\<open>register_session_implement_for_target\<close>; \<open>iscoroutinefunction\<close> and
  \<open>isgeneratorfunction\<close> are the predicates of \<^verbatim>\<open>utils\<close>, taken as parameters.
\<close>

definition register_session_implement_for_target ::
  "('f \<Rightarrow> bool) \<Rightarrow> ('f \<Rightarrow> bool) \<Rightarrow> 'f \<Rightarrow> ('x, 's) world \<Rightarrow> (exn + session_cls) \<times> ('x, 's) world" where
  "register_session_implement_for_target iscoroutinefunction isgeneratorfunction target_func w =
     (let cls = (if iscoroutinefunction target_func \<or> isgeneratorfunction target_func
                 then CoroutineBasedSession else ThreadBasedSession)
      in if ScriptModeSession \<in> set (active_session_cls w)
         then (Inl (RuntimeError ''Already in script mode, can't start server''), w)
         else (Inr cls,
               if cls \<notin> set (active_session_cls w)
               then w\<lparr>active_session_cls := active_session_cls w @ [cls]\<rparr>
               else w))"

definition start_script_mode_server :: "('x, 's) env \<Rightarrow> ('x, 's) world \<Rightarrow> ('x, 's) world" where
  "start_script_mode_server E w = w\<lparr>ext := start_server_in_current_thread_session E (ext w)\<rparr>"

text \<open>
  The loop of lines 64-69 with the \<^verbatim>\<open>raise\<close> of line 71. Each class is asked in list
  order: the first that returns a session is the result, \<^verbatim>\<open>SessionNotFoundException\<close> is
  caught and the next class is asked, any other exception leaves the loop and the function,
  and the end of the list raises \<^verbatim>\<open>SessionNotFoundException\<close>.
\<close>

fun probe :: "('x, 's) env \<Rightarrow> 'x \<Rightarrow> session_cls list \<Rightarrow> exn + session_cls" where
  "probe E x [] = Inl SessionNotFoundException"
| "probe E x (cls # rest) =
     (case cls_get_current_session E cls x of
        Inr s \<Rightarrow> Inr cls
      | Inl e \<Rightarrow> if is_SessionNotFoundException e then probe E x rest else Inl e)"

definition get_session_implement ::
  "('x, 's) env \<Rightarrow> ('x, 's) world \<Rightarrow> (exn + session_cls) \<times> ('x, 's) world" where
  "get_session_implement E w =
     (let w1 = (if active_session_cls w = []
                then start_script_mode_server E
                       (w\<lparr>active_session_cls := active_session_cls w @ [ScriptModeSession]\<rparr>)
                else w)
      in if length (active_session_cls w1) = 1
         then (Inr (active_session_cls w1 ! 0), w1)
         else (probe E (ext w1) (active_session_cls w1), w1))"

definition get_current_session ::
  "('x, 's) env \<Rightarrow> ('x, 's) world \<Rightarrow> (exn + 's) \<times> ('x, 's) world" where
  "get_current_session E w =
     (case get_session_implement E w of
        (Inl e, w1) \<Rightarrow> (Inl e, w1)
      | (Inr cls, w1) \<Rightarrow>
          (case cls_get_current_session E cls (ext w1) of
             Inl e \<Rightarrow> (Inl e, w1)
           | Inr s \<Rightarrow> (Inr s, w1)))"


subsection \<open>The capability check (lines 87-108)\<close>

text \<open>Python's \<^verbatim>\<open>issubclass\<close>: the same class, or a class derived from it.\<close>

definition issubclass :: "('x, 's) env \<Rightarrow> session_cls \<Rightarrow> session_cls \<Rightarrow> bool" where
  "issubclass E c d = (c = d \<or> derives_from E c d)"

definition impl_error_msg :: "string \<Rightarrow> string \<Rightarrow> string \<Rightarrow> string" where
  "impl_error_msg func_name require_name curr_name =
     ''Only can invoke `'' @ func_name @ ''` in '' @ require_name @ '' context.''
       @ '' You are now in '' @ curr_name @ '' context''"

text \<open>
  \<^verbatim>\<open>check_session_impl(session_type)(func)(*args)\<close>; \<open>func_name\<close> is
  \<^verbatim>\<open>getattr(func, '__name__', str(func))\<close>.
\<close>

definition check_session_impl ::
  "('x, 's) env \<Rightarrow> session_cls \<Rightarrow> string \<Rightarrow> ('a \<Rightarrow> ('x, 's) world \<Rightarrow> (exn + 'r) \<times> ('x, 's) world)
     \<Rightarrow> 'a \<Rightarrow> ('x, 's) world \<Rightarrow> (exn + 'r) \<times> ('x, 's) world" where
  "check_session_impl E session_type func_name func args w =
     (case get_session_implement E w of
        (Inl e, w1) \<Rightarrow> (Inl e, w1)
      | (Inr curr_impl, w1) \<Rightarrow>
          if \<not> issubclass E curr_impl session_type
          then (Inl (RuntimeError
                  (impl_error_msg func_name (cls_name session_type) (cls_name curr_impl))), w1)
          else func args w1)"

text \<open>
  \<^verbatim>\<open>run_async\<close> and \<^verbatim>\<open>register_thread\<close>: the session's own method is a parameter.
\<close>

definition run_async ::
  "('x, 's) env \<Rightarrow> ('s \<Rightarrow> 'a \<Rightarrow> ('x, 's) world \<Rightarrow> (exn + 'r) \<times> ('x, 's) world)
     \<Rightarrow> 'a \<Rightarrow> ('x, 's) world \<Rightarrow> (exn + 'r) \<times> ('x, 's) world" where
  "run_async E session_run_async coro_obj w =
     check_session_impl E CoroutineBasedSession ''run_async''
       (\<lambda>c w0. case get_current_session E w0 of
                  (Inl e, w1) \<Rightarrow> (Inl e, w1)
                | (Inr s, w1) \<Rightarrow> session_run_async s c w1)
       coro_obj w"

definition register_thread ::
  "('x, 's) env \<Rightarrow> ('s \<Rightarrow> 'a \<Rightarrow> ('x, 's) world \<Rightarrow> (exn + 'r) \<times> ('x, 's) world)
     \<Rightarrow> 'a \<Rightarrow> ('x, 's) world \<Rightarrow> (exn + 'r) \<times> ('x, 's) world" where
  "register_thread E session_register_thread thread w =
     check_session_impl E ThreadBasedSession ''register_thread''
       (\<lambda>t w0. case get_current_session E w0 of
                  (Inl e, w1) \<Rightarrow> (Inl e, w1)
                | (Inr s, w1) \<Rightarrow> session_register_thread s t w1)
       thread w"

subsection \<open>Generators and the dispatch adapter (lines 111-124)\<close>

text \<open>
  A generator object is a state \<open>'s\<close> together with the body that resumes it:
  \<open>body s res w\<close> is \<^verbatim>\<open>gen.send(res)\<close> in state \<open>s\<close> and world \<open>w\<close>. It runs to the next
  \<^verbatim>\<open>yield\<close>, to the \<^verbatim>\<open>return\<close> (Python's \<^verbatim>\<open>StopIteration\<close>) or to an exception;
  \<open>None\<close> is a body that does neither.
\<close>

datatype 's gstep = GYield obj 's | GReturn obj | GRaise exn

type_synonym ('s, 'w) generator = "'s \<Rightarrow> obj \<Rightarrow> 'w \<Rightarrow> ('s gstep \<times> 'w) option"

text \<open>
  Modelled from the spec: \<^verbatim>\<open>run_as_function\<close> of pywebio/utils.py, which is not among the
  sources. Section 4.5: it "synchronously drives the generator on the calling thread to
  completion (each yielded suspending call is executed and its result fed back into the
  generator) and returns the final value directly". Under this driver the yielded call has
  already run when the generator yields, so the yielded value is what is sent back; the
  first value sent is \<^verbatim>\<open>None\<close>. An exception of the generator leaves the driver.
\<close>

partial_function (option) run_as_function_loop ::
  "('s, 'w) generator \<Rightarrow> 's \<Rightarrow> obj \<Rightarrow> 'w \<Rightarrow> ((exn + obj) \<times> 'w) option" where
  "run_as_function_loop body s res w =
     (case body s res w of
        None \<Rightarrow> None
      | Some (GYield c s', w1) \<Rightarrow> run_as_function_loop body s' c w1
      | Some (GReturn r, w1) \<Rightarrow> Some (Inr r, w1)
      | Some (GRaise e, w1) \<Rightarrow> Some (Inl e, w1))"

definition run_as_function ::
  "('s, 'w) generator \<Rightarrow> 's \<Rightarrow> 'w \<Rightarrow> ((exn + obj) \<times> 'w) option" where
  "run_as_function body gen w = run_as_function_loop body gen (Val PNone) w"

text \<open>
  Modelled from the spec: \<^verbatim>\<open>to_coroutine\<close> of pywebio/utils.py, which is not among the
  sources. Section 4.5: it "returns an awaitable whose eventual result is the generator's
  return value". The coroutine object is \<open>Awaitable gen\<close>: the generator, not yet started.
  Awaiting it is \<open>await_coroutine\<close>: every yielded awaitable \<open>c\<close> is awaited, \<open>aw c\<close> being
  the result the scheduler completes it with (\<open>None\<close>: it never completes), and the result
  is sent into the generator. The spec does not say how a failing await reaches the
  generator, so \<open>aw\<close> covers the awaits that complete with a result.
\<close>

datatype 's called = Direct obj | Awaitable 's

definition to_coroutine :: "'s \<Rightarrow> 's called" where
  "to_coroutine gen = Awaitable gen"

partial_function (option) await_coroutine_loop ::
  "(obj \<Rightarrow> 'w \<Rightarrow> (obj \<times> 'w) option) \<Rightarrow> ('s, 'w) generator \<Rightarrow> 's \<Rightarrow> obj \<Rightarrow> 'w
     \<Rightarrow> ((exn + obj) \<times> 'w) option" where
  "await_coroutine_loop aw body s res w =
     (case body s res w of
        None \<Rightarrow> None
      | Some (GYield c s', w1) \<Rightarrow>
          (case aw c w1 of
             None \<Rightarrow> None
           | Some (res', w2) \<Rightarrow> await_coroutine_loop aw body s' res' w2)
      | Some (GReturn r, w1) \<Rightarrow> Some (Inr r, w1)
      | Some (GRaise e, w1) \<Rightarrow> Some (Inl e, w1))"

definition await_coroutine ::
  "(obj \<Rightarrow> 'w \<Rightarrow> (obj \<times> 'w) option) \<Rightarrow> ('s, 'w) generator \<Rightarrow> 's \<Rightarrow> 'w
     \<Rightarrow> ((exn + obj) \<times> 'w) option" where
  "await_coroutine aw body gen w = await_coroutine_loop aw body gen (Val PNone) w"

text \<open>
  \<^verbatim>\<open>chose_impl(gen_func)(*args)\<close>. A generator function is \<open>gen_func\<close>, which builds the
  generator object from the arguments without running it, and its \<open>body\<close>.
\<close>

definition chose_impl ::
  "('x, 't) env \<Rightarrow> ('a \<Rightarrow> 's) \<Rightarrow> ('s, ('x, 't) world) generator \<Rightarrow> 'a \<Rightarrow> ('x, 't) world
     \<Rightarrow> ((exn + 's called) \<times> ('x, 't) world) option" where
  "chose_impl E gen_func body args w =
     (let gen = gen_func args in
      case get_session_implement E w of
        (Inl e, w1) \<Rightarrow> Some (Inl e, w1)
      | (Inr cls, w1) \<Rightarrow>
          if cls = CoroutineBasedSession
          then Some (Inr (to_coroutine gen), w1)
          else (case run_as_function body gen w1 of
                  None \<Rightarrow> None
                | Some (Inl e, w2) \<Rightarrow> Some (Inl e, w2)
                | Some (Inr r, w2) \<Rightarrow> Some (Inr (Direct r), w2)))"

subsection \<open>The suspension primitive and \<^verbatim>\<open>hold\<close> (lines 127-147)\<close>

datatype nce_state = NceStart | NceYielded

definition next_client_event_body :: "('x, 't) env \<Rightarrow> (nce_state, ('x, 't) world) generator" where
  "next_client_event_body E s res w =
     (case s of
        NceStart \<Rightarrow>
          (case get_current_session E w of
             (Inl e, w1) \<Rightarrow> Some (GRaise e, w1)
           | (Inr sess, w1) \<Rightarrow>
               (case session_next_client_event E sess (ext w1) of
                  (Inl e, x) \<Rightarrow> Some (GRaise e, w1\<lparr>ext := x\<rparr>)
                | (Inr c, x) \<Rightarrow> Some (GYield c NceYielded, w1\<lparr>ext := x\<rparr>)))
      | NceYielded \<Rightarrow> Some (GReturn res, w))"

definition next_client_event ::
  "('x, 't) env \<Rightarrow> ('x, 't) world \<Rightarrow> ((exn + nce_state called) \<times> ('x, 't) world) option" where
  "next_client_event E w = chose_impl E (\<lambda>_::unit. NceStart) (next_client_event_body E) () w"

text \<open>
  What a generator yields when it writes \<^verbatim>\<open>yield next_client_event()\<close>: the event the
  call returned, or the coroutine object it returned.
\<close>

fun yielded :: "nce_state called \<Rightarrow> obj" where
  "yielded (Direct v) = v"
| "yielded (Awaitable g) = NextClientEventCoroutine"





subsection \<open>Outbound messages: \<^verbatim>\<open>run_js\<close>, \<^verbatim>\<open>eval_js\<close>, \<^verbatim>\<open>set_env\<close>\<close>

text \<open>
  Modelled from the spec: \<^verbatim>\<open>send_msg\<close> of pywebio/io_ctrl.py, which is not among the
  sources. Interactive functions take no session: they "always resolve the current session
  fresh from ambient context" (section 2), an interactive call from a context that no
  session knows "fails with a session-not-found condition" (sections 3 and 4.1), and
  the send itself is "send_message(session, kind, payload) - fire-and-forget, ordering
  preserved per session" (section 6). So \<open>send_msg\<close> resolves the current session with
  \<^verbatim>\<open>get_current_session\<close>; when that raises, the exception leaves \<open>send_msg\<close> and nothing
  is sent; otherwise the message is appended, with its session, to the messages sent.
\<close>

definition send_msg ::
  "('x, 's) env \<Rightarrow> string \<Rightarrow> py_val \<Rightarrow> ('x, 's) world \<Rightarrow> (exn + py_val) \<times> ('x, 's) world" where
  "send_msg E cmd spec w =
     (case get_current_session E w of
        (Inl e, w1) \<Rightarrow> (Inl e, w1)
      | (Inr s, w1) \<Rightarrow> (Inr PNone, w1\<lparr>outbox := outbox w1 @ [(s, Msg cmd spec)]\<rparr>))"

text \<open>
  Binding the keyword arguments of a call \<^verbatim>\<open>f(x, **args)\<close> to \<^verbatim>\<open>def f(name, **args)\<close>:
  Python raises \<^verbatim>\<open>TypeError\<close> (multiple values for the argument) when \<open>args\<close> has the key
  \<open>name\<close>, before the body of \<open>f\<close> runs.
\<close>

definition binds :: "string \<Rightarrow> (string \<times> py_val) list \<Rightarrow> bool" where
  "binds name args = (name \<notin> set (map fst args))"

definition multiple_values :: "string \<Rightarrow> string \<Rightarrow> exn" where
  "multiple_values func_name name =
     TypeError (func_name @ ''() got multiple values for argument '' @ [CHR 0x27] @ name @ [CHR 0x27])"

text \<open>\<^verbatim>\<open>run_js(code_, **args)\<close>, lines 170-184; \<open>code\<close> is the parameter \<^verbatim>\<open>code_\<close>.\<close>

definition run_js ::
  "('x, 's) env \<Rightarrow> string \<Rightarrow> (string \<times> py_val) list \<Rightarrow> ('x, 's) world
     \<Rightarrow> (exn + py_val) \<times> ('x, 's) world" where
  "run_js E code args w =
     (if \<not> binds ''code_'' args then (Inl (multiple_values ''run_js'' ''code_''), w)
      else send_msg E ''run_script'' (PDict [(''code'', PStr code), (''args'', PDict args)]) w)"

text \<open>The script of lines 215-227, \<^verbatim>\<open>%r\<close> replaced by the \<^verbatim>\<open>repr\<close> of the expression.\<close>

definition eval_js_script :: "('x, 't) env \<Rightarrow> string \<Rightarrow> string" where
  "eval_js_script E expression =
     [CHR 0x0A] @
     ''    (function(WebIO){'' @ [CHR 0x0A] @
     ''        let ____result____ = null;  // to avoid naming conflict'' @ [CHR 0x0A] @
     ''        try{'' @ [CHR 0x0A] @
     ''            ____result____ = eval('' @ repr E expression @ '');'' @ [CHR 0x0A] @
     ''        }catch{};'' @ [CHR 0x0A] @
     ''        '' @ [CHR 0x0A] @
     ''        WebIO.sendMessage({'' @ [CHR 0x0A] @
     ''            event: '' @ [CHR 0x22] @ ''js_yield'' @ [CHR 0x22] @ '','' @ [CHR 0x0A] @
     ''            task_id: WebIOCurrentTaskID,  // local var in run_script command'' @ [CHR 0x0A] @
     ''            data: ____result____ || null'' @ [CHR 0x0A] @
     ''        });'' @ [CHR 0x0A] @
     ''    })(WebIO);''"

definition internal_error_msg :: string where
  "internal_error_msg =
     ''Internal Error, please report this bug on https://github.com/wang0618/PyWebIO/issues''"

datatype eval_js_state = EvalJsStart string "(string \<times> py_val) list" | EvalJsWaiting

text \<open>
  The generator of \<^verbatim>\<open>eval_js\<close>. The call \<^verbatim>\<open>run_js(script, **args)\<close> of line 229 raises
  when the keyword arguments do not bind or when the message cannot be sent, and the
  generator ends with that exception. After the \<^verbatim>\<open>yield\<close>, \<^verbatim>\<open>res['event']\<close> reads the
  kind of the event that was sent in; an object that is not an event cannot be subscripted.
\<close>

definition eval_js_body :: "('x, 't) env \<Rightarrow> (eval_js_state, ('x, 't) world) generator" where
  "eval_js_body E s res w =
     (case s of
        EvalJsStart expression args \<Rightarrow>
          (let script = eval_js_script E expression
           in case run_js E script args w of
                (Inl e, w1) \<Rightarrow> Some (GRaise e, w1)
              | (Inr r0, w1) \<Rightarrow>
                  (case next_client_event E w1 of
                     None \<Rightarrow> None
                   | Some (Inl e, w2) \<Rightarrow> Some (GRaise e, w2)
                   | Some (Inr r, w2) \<Rightarrow> Some (GYield (yielded r) EvalJsWaiting, w2)))
      | EvalJsWaiting \<Rightarrow>
          (case res of
             Event ev \<Rightarrow>
               if event ev = ''js_yield'' then Some (GReturn (Val (data ev)), w)
               else Some (GRaise (AssertionError internal_error_msg), w)
           | _ \<Rightarrow> Some (GRaise (TypeError ''object is not subscriptable''), w)))"

text \<open>
  \<^verbatim>\<open>eval_js(expression_, **args)\<close>: the wrapper of \<^verbatim>\<open>chose_impl\<close> takes any arguments,
  and line 118 binds them to the generator function before anything else is done.
\<close>

definition eval_js ::
  "('x, 't) env \<Rightarrow> string \<Rightarrow> (string \<times> py_val) list \<Rightarrow> ('x, 't) world
     \<Rightarrow> ((exn + eval_js_state called) \<times> ('x, 't) world) option" where
  "eval_js E expression args w =
     (if \<not> binds ''expression_'' args
      then Some (Inl (multiple_values ''eval_js'' ''expression_''), w)
      else chose_impl E (\<lambda>(e, a). EvalJsStart e a) (eval_js_body E) (expression, args) w)"

text \<open>\<^verbatim>\<open>set_env(**env_info)\<close>: the keyword arguments in call order.\<close>

definition set_env_keys :: "string list" where
  "set_env_keys = [''title'', ''output_animation'', ''auto_scroll_bottom'', ''http_pull_interval'']"

definition set_env ::
  "('x, 's) env \<Rightarrow> (string \<times> py_val) list \<Rightarrow> ('x, 's) world
     \<Rightarrow> (exn + py_val) \<times> ('x, 's) world" where
  "set_env E env_info w =
     (if list_all (\<lambda>k. k \<in> set set_env_keys) (map fst env_info)
      then send_msg E ''set_env'' (PDict env_info) w
      else (Inl (AssertionError []), w))"

subsection \<open>Call sequences and the registry invariant\<close>

text \<open>
  The calls that touch the registry: a registration of a task function, or a resolution
  (every interactive function starts with one). An exception leaves the state as the call
  left it.
\<close>

datatype 'f call = Register 'f | Resolve

fun run_call ::
  "('f \<Rightarrow> bool) \<Rightarrow> ('f \<Rightarrow> bool) \<Rightarrow> ('x, 's) env \<Rightarrow> 'f call \<Rightarrow> ('x, 's) world \<Rightarrow> ('x, 's) world" where
  "run_call isc isg E (Register f) w = snd (register_session_implement_for_target isc isg f w)"
| "run_call isc isg E Resolve w = snd (get_session_implement E w)"

fun run_calls ::
  "('f \<Rightarrow> bool) \<Rightarrow> ('f \<Rightarrow> bool) \<Rightarrow> ('x, 's) env \<Rightarrow> 'f call list \<Rightarrow> ('x, 's) world \<Rightarrow> ('x, 's) world" where
  "run_calls isc isg E [] w = w"
| "run_calls isc isg E (c # cs) w = run_calls isc isg E cs (run_call isc isg E c w)"

definition registry_inv :: "session_cls list \<Rightarrow> bool" where
  "registry_inv reg =
     (distinct reg \<and> (ScriptModeSession \<in> set reg \<longrightarrow> reg = [ScriptModeSession]))"

subsection \<open>Runs of a generator and of a primitive\<close>

text \<open>
  \<open>sent_back body n s res w\<close>: the generator after \<open>n\<close> resumptions that each end in a
  \<^verbatim>\<open>yield\<close>, the yielded value being sent back; \<open>None\<close> when it does not yield that often.
\<close>

fun sent_back ::
  "('s, 'w) generator \<Rightarrow> nat \<Rightarrow> 's \<Rightarrow> obj \<Rightarrow> 'w \<Rightarrow> ('s \<times> obj \<times> 'w) option" where
  "sent_back body 0 s res w = Some (s, res, w)"
| "sent_back body (Suc n) s res w =
     (case body s res w of
        Some (GYield c s', w1) \<Rightarrow> sent_back body n s' c w1
      | _ \<Rightarrow> None)"

text \<open>The same, each yielded awaitable being awaited and its result sent in.\<close>

fun awaited ::
  "(obj \<Rightarrow> 'w \<Rightarrow> (obj \<times> 'w) option) \<Rightarrow> ('s, 'w) generator \<Rightarrow> nat \<Rightarrow> 's \<Rightarrow> obj \<Rightarrow> 'w
     \<Rightarrow> ('s \<times> obj \<times> 'w) option" where
  "awaited aw body 0 s res w = Some (s, res, w)"
| "awaited aw body (Suc n) s res w =
     (case body s res w of
        Some (GYield c s', w1) \<Rightarrow>
          (case aw c w1 of
             Some (res', w2) \<Rightarrow> awaited aw body n s' res' w2
           | None \<Rightarrow> None)
      | _ \<Rightarrow> None)"


subsection \<open>A concrete environment\<close>

text \<open>
  A transport that counts the servers started and the outcomes delivered, and an
  environment over it: the classes of \<open>recognised\<close> find a session for the caller, and the
  \<open>k\<close>-th call of the session's \<^verbatim>\<open>next_client_event\<close> has the outcome \<open>inbound k\<close>.
\<close>

record transport =
  servers :: nat
  delivered :: nat

text \<open>
  The class declarations of pywebio/session/threadbased.py are not among the sources. In
  this hierarchy \<^verbatim>\<open>ScriptModeSession\<close> is declared as a subclass of \<^verbatim>\<open>ThreadBasedSession\<close>,
  the case the comment of line 95 provides for ("derived from session_type or is the same
  class").
\<close>

definition script_mode_derives :: "session_cls \<Rightarrow> session_cls \<Rightarrow> bool" where
  "script_mode_derives c d = (c = ScriptModeSession \<and> d = ThreadBasedSession)"

definition stream_env :: "session_cls list \<Rightarrow> (nat \<Rightarrow> exn + obj) \<Rightarrow> (transport, nat) env" where
  "stream_env recognised inbound =
     \<lparr>start_server_in_current_thread_session = (\<lambda>x. x\<lparr>servers := Suc (servers x)\<rparr>),
      cls_get_current_session =
        (\<lambda>cls x. if cls \<in> set recognised then Inr 0 else Inl SessionNotFoundException),
      session_next_client_event =
        (\<lambda>s x. (inbound (delivered x), x\<lparr>delivered := Suc (delivered x)\<rparr>)),
      derives_from = script_mode_derives,
      repr = (\<lambda>s. [CHR 0x27] @ s @ [CHR 0x27])\<rparr>"

definition world0 :: "session_cls list \<Rightarrow> (transport, nat) world" where
  "world0 reg = \<lparr>active_session_cls = reg, outbox = [], ext = \<lparr>servers = 0, delivered = 0\<rparr>\<rparr>"

text \<open>Two events and then the close of the session; events for ever.\<close>

definition js_event :: "py_val \<Rightarrow> client_event" where
  "js_event d = \<lparr>event = ''js_yield'', task_id = ''main'', data = d\<rparr>"

definition two_events_then_closed :: "nat \<Rightarrow> exn + obj" where
  "two_events_then_closed k =
     (if k < 2 then Inr (Event (js_event (PInt (int k)))) else Inl SessionClosedException)"

definition events_for_ever :: "nat \<Rightarrow> exn + obj" where
  "events_for_ever k = Inr (Event (js_event (PInt (int k))))"

text \<open>A process with one thread-backed session that has taken \<open>k\<close> outcomes so far.\<close>

definition thread_world :: "nat \<Rightarrow> (transport, nat) world" where
  "thread_world k =
     \<lparr>active_session_cls = [ThreadBasedSession], outbox = [],
      ext = \<lparr>servers = 0, delivered = k\<rparr>\<rparr>"

text \<open>A reply with an absent value, and an event of another kind.\<close>

definition null_reply :: "nat \<Rightarrow> exn + obj" where
  "null_reply k = Inr (Event (js_event PNone))"

definition callback_event :: "nat \<Rightarrow> exn + obj" where
  "callback_event k = Inr (Event \<lparr>event = ''callback'', task_id = ''main'', data = PNone\<rparr>)"

text \<open>
  A coroutine-backed session hands out futures: the \<open>k\<close>-th call of its
  \<^verbatim>\<open>next_client_event\<close> returns the future \<open>Opaque k\<close>, and the scheduler completes every
  future with a reply.
\<close>

definition futures :: "nat \<Rightarrow> exn + obj" where
  "futures k = Inr (Opaque k)"

definition completes :: "obj \<Rightarrow> (transport, nat) world \<Rightarrow> (obj \<times> (transport, nat) world) option" where
  "completes c w = Some (Event (js_event (PInt 2)), w)"

text \<open>
  The scheduler \<open>delivers\<close> completes every awaited call with the next event, and
  \<open>both_world\<close> is a process in which both kinds of session are registered.
\<close>

definition delivers :: "obj \<Rightarrow> (transport, nat) world \<Rightarrow> (obj \<times> (transport, nat) world) option" where
  "delivers c w =
     Some (Event (js_event (PInt (int (delivered (ext w))))),
           w\<lparr>ext := (ext w)\<lparr>delivered := Suc (delivered (ext w))\<rparr>\<rparr>)"

definition both_world :: "nat \<Rightarrow> (transport, nat) world" where
  "both_world k =
     \<lparr>active_session_cls = [CoroutineBasedSession, ThreadBasedSession], outbox = [],
      ext = \<lparr>servers = 0, delivered = k\<rparr>\<rparr>"


section \<open>Resolution of the session implementation\<close>








text \<open>
  Claim C5. When the registry is empty, \<^verbatim>\<open>get_session_implement\<close> appends
  \<^verbatim>\<open>ScriptModeSession\<close> to it, starts the script-mode server and returns
  \<^verbatim>\<open>ScriptModeSession\<close>: the call succeeds.
\<close>

theorem get_session_implement_bootstraps_script_mode:
  assumes "active_session_cls w = []"
  shows "get_session_implement E w =
           (Inr ScriptModeSession,
            w\<lparr>active_session_cls := [ScriptModeSession],
              ext := start_server_in_current_thread_session E (ext w)\<rparr>)"
  using assms by (simp add: get_session_implement_def start_script_mode_server_def)

theorem get_session_implement_bootstraps_script_mode_witness:
  "active_session_cls (world0 []) = []
   \<and> get_session_implement (stream_env [ScriptModeSession] events_for_ever) (world0 [])
       = (Inr ScriptModeSession,
          \<lparr>active_session_cls = [ScriptModeSession], outbox = [],
           ext = \<lparr>servers = 1, delivered = 0\<rparr>\<rparr>)"
proof -
  have e: "active_session_cls (world0 []) = []" by (simp add: world0_def)
  from get_session_implement_bootstraps_script_mode
         [OF e, of "stream_env [ScriptModeSession] events_for_ever"] e
  show ?thesis by (simp add: world0_def stream_env_def)
qed

section \<open>Registration\<close>

text \<open>
  Claim C3. Registration raises exactly when \<^verbatim>\<open>ScriptModeSession\<close> is in the registry at
  the call; the exception is then the \<^verbatim>\<open>RuntimeError\<close> of line 45 and the state, the
  registry with it, is unchanged.
\<close>

theorem register_raises_iff_script_mode:
  "(\<exists>e. fst (register_session_implement_for_target isc isg f w) = Inl e)
     = (ScriptModeSession \<in> set (active_session_cls w))
   \<and> (ScriptModeSession \<in> set (active_session_cls w) \<longrightarrow>
        register_session_implement_for_target isc isg f w
          = (Inl (RuntimeError ''Already in script mode, can't start server''), w))"
  by (simp add: register_session_implement_for_target_def Let_def)

theorem register_raises_iff_script_mode_witness:
  "ScriptModeSession \<in> set (active_session_cls (world0 [ScriptModeSession]))
   \<and> register_session_implement_for_target (\<lambda>b. b) (\<lambda>b. False) True (world0 [ScriptModeSession])
       = (Inl (RuntimeError ''Already in script mode, can't start server''),
          world0 [ScriptModeSession])"
proof -
  have m: "ScriptModeSession \<in> set (active_session_cls (world0 [ScriptModeSession]))"
    by (simp add: world0_def)
  from register_raises_iff_script_mode
         [of "\<lambda>b. b" "\<lambda>b. False" True "world0 [ScriptModeSession]", THEN conjunct2] m
  show ?thesis by simp
qed

text \<open>
  Claim C4. When registration does not raise, the class it returns is decided by the shape
  of the task function alone: \<^verbatim>\<open>CoroutineBasedSession\<close> for a coroutine function or a
  generator function, \<^verbatim>\<open>ThreadBasedSession\<close> for every other callable; that class is in the
  registry afterwards.
\<close>

theorem register_classifies_by_shape:
  assumes "ScriptModeSession \<notin> set (active_session_cls w)"
  shows "fst (register_session_implement_for_target isc isg f w)
           = Inr (if isc f \<or> isg f then CoroutineBasedSession else ThreadBasedSession)
       \<and> (if isc f \<or> isg f then CoroutineBasedSession else ThreadBasedSession)
           \<in> set (active_session_cls (snd (register_session_implement_for_target isc isg f w)))"
  using assms by (simp add: register_session_implement_for_target_def Let_def)

theorem register_classifies_by_shape_witness:
  "ScriptModeSession \<notin> set (active_session_cls (world0 []))
   \<and> fst (register_session_implement_for_target (\<lambda>b. b) (\<lambda>b. False) True (world0 []))
       = Inr CoroutineBasedSession
   \<and> fst (register_session_implement_for_target (\<lambda>b. b) (\<lambda>b. False) False (world0 []))
       = Inr ThreadBasedSession"
proof -
  have m: "ScriptModeSession \<notin> set (active_session_cls (world0 []))"
    by (simp add: world0_def)
  from register_classifies_by_shape[OF m, of "\<lambda>b. b" "\<lambda>b. False" True]
       register_classifies_by_shape[OF m, of "\<lambda>b. b" "\<lambda>b. False" False] m
  show ?thesis by simp
qed

section \<open>The registry invariant\<close>

lemma register_inv:
  "registry_inv (active_session_cls w) \<Longrightarrow>
   registry_inv (active_session_cls (snd (register_session_implement_for_target isc isg f w)))"
  by (auto simp: registry_inv_def register_session_implement_for_target_def Let_def)

lemma resolve_registry:
  "active_session_cls (snd (get_session_implement E w)) =
     (if active_session_cls w = [] then [ScriptModeSession] else active_session_cls w)"
  by (simp add: get_session_implement_def start_script_mode_server_def Let_def)

lemma resolve_inv:
  "registry_inv (active_session_cls w) \<Longrightarrow>
   registry_inv (active_session_cls (snd (get_session_implement E w)))"
  by (simp add: resolve_registry registry_inv_def)

lemma run_call_inv:
  "registry_inv (active_session_cls w) \<Longrightarrow>
   registry_inv (active_session_cls (run_call isc isg E c w))"
  by (cases c) (simp_all add: register_inv resolve_inv)

lemma run_calls_inv:
  "registry_inv (active_session_cls w) \<Longrightarrow>
   registry_inv (active_session_cls (run_calls isc isg E cs w))"
  by (induction cs arbitrary: w) (simp_all add: run_call_inv)

text \<open>
  Claim C10. The registry has no duplicates, and \<^verbatim>\<open>ScriptModeSession\<close> is alone in it
  whenever it is in it: registration preserves this, resolution (its bootstrap branch
  with it) preserves this, and it holds after every sequence of registrations and
  resolutions that starts from the empty registry.
\<close>

theorem registry_invariant:
  "(registry_inv (active_session_cls w) \<longrightarrow>
      registry_inv (active_session_cls (snd (register_session_implement_for_target isc isg f w))))
   \<and> (registry_inv (active_session_cls w) \<longrightarrow>
      registry_inv (active_session_cls (snd (get_session_implement E w))))
   \<and> (active_session_cls w = [] \<longrightarrow>
      registry_inv (active_session_cls (run_calls isc isg E cs w)))"
proof (intro conjI impI)
  assume "active_session_cls w = []"
  then have "registry_inv (active_session_cls w)" by (simp add: registry_inv_def)
  then show "registry_inv (active_session_cls (run_calls isc isg E cs w))"
    by (rule run_calls_inv)
qed (simp_all add: register_inv resolve_inv)

theorem registry_invariant_witness:
  "active_session_cls (world0 []) = []
   \<and> registry_inv (active_session_cls (world0 []))
   \<and> registry_inv (active_session_cls
         (run_calls (\<lambda>b. b) (\<lambda>b. False) (stream_env [] events_for_ever)
            [Register True, Register False, Register True, Resolve] (world0 [])))
   \<and> active_session_cls
         (run_calls (\<lambda>b. b) (\<lambda>b. False) (stream_env [] events_for_ever)
            [Register True, Register False, Register True, Resolve] (world0 []))
       = [CoroutineBasedSession, ThreadBasedSession]
   \<and> active_session_cls
         (run_calls (\<lambda>b. b) (\<lambda>b. False) (stream_env [] events_for_ever)
            [Resolve, Register True] (world0 []))
       = [ScriptModeSession]"
proof -
  let ?E = "stream_env [] events_for_ever"
  have e: "active_session_cls (world0 []) = []" by (simp add: world0_def)
  have i: "registry_inv (active_session_cls (world0 []))" by (simp add: world0_def registry_inv_def)
  have r: "registry_inv (active_session_cls
         (run_calls (\<lambda>b. b) (\<lambda>b. False) ?E
            [Register True, Register False, Register True, Resolve] (world0 [])))"
    using registry_invariant[of "world0 []" "\<lambda>b. b" "\<lambda>b. False" True ?E
        "[Register True, Register False, Register True, Resolve]"] e by simp
  have a: "active_session_cls
         (run_calls (\<lambda>b. b) (\<lambda>b. False) ?E
            [Register True, Register False, Register True, Resolve] (world0 []))
       = [CoroutineBasedSession, ThreadBasedSession]"
    by (simp add: world0_def register_session_implement_for_target_def resolve_registry)
  have b: "active_session_cls
         (run_calls (\<lambda>b. b) (\<lambda>b. False) ?E [Resolve, Register True] (world0 []))
       = [ScriptModeSession]"
    by (simp add: world0_def register_session_implement_for_target_def resolve_registry)
  from e i r a b show ?thesis by simp
qed

section \<open>The two drivers of a generator\<close>

lemma run_loop_return:
  "body s res w = Some (GReturn r, w1) \<Longrightarrow> run_as_function_loop body s res w = Some (Inr r, w1)"
  by (subst run_as_function_loop.simps) simp

lemma run_loop_raise:
  "body s res w = Some (GRaise e, w1) \<Longrightarrow> run_as_function_loop body s res w = Some (Inl e, w1)"
  by (subst run_as_function_loop.simps) simp

lemma run_loop_yield:
  "body s res w = Some (GYield c s', w1) \<Longrightarrow>
   run_as_function_loop body s res w = run_as_function_loop body s' c w1"
  by (subst run_as_function_loop.simps) simp

lemma run_loop_sent_back:
  "sent_back body n s res w = Some (s', res', w') \<Longrightarrow>
   run_as_function_loop body s res w = run_as_function_loop body s' res' w'"
proof (induction n arbitrary: s res w)
  case 0
  then show ?case by simp
next
  case (Suc n)
  from Suc.prems obtain c s1 w1 where
    step: "body s res w = Some (GYield c s1, w1)"
    and rest: "sent_back body n s1 c w1 = Some (s', res', w')"
    by (auto split: option.splits prod.splits gstep.splits)
  show ?case using Suc.IH[OF rest] run_loop_yield[of body s res w c s1 w1] step by simp
qed



lemma await_loop_return:
  "body s res w = Some (GReturn r, w1) \<Longrightarrow>
   await_coroutine_loop aw body s res w = Some (Inr r, w1)"
  by (subst await_coroutine_loop.simps) simp

lemma await_loop_yield:
  "body s res w = Some (GYield c s', w1) \<Longrightarrow> aw c w1 = Some (res', w2) \<Longrightarrow>
   await_coroutine_loop aw body s res w = await_coroutine_loop aw body s' res' w2"
  by (subst await_coroutine_loop.simps) simp

lemma await_loop_awaited:
  "awaited aw body n s res w = Some (s', res', w') \<Longrightarrow>
   await_coroutine_loop aw body s res w = await_coroutine_loop aw body s' res' w'"
proof (induction n arbitrary: s res w)
  case 0
  then show ?case by simp
next
  case (Suc n)
  from Suc.prems obtain c s1 w1 r2 w2 where
    step: "body s res w = Some (GYield c s1, w1)" and a: "aw c w1 = Some (r2, w2)"
    and rest: "awaited aw body n s1 r2 w2 = Some (s', res', w')"
    by (auto split: option.splits prod.splits gstep.splits)
  show ?case
    using Suc.IH[OF rest] await_loop_yield[of body s res w c s1 w1 aw r2 w2] step a by simp
qed

lemma await_loop_raise:
  "body s res w = Some (GRaise e, w1) \<Longrightarrow>
   await_coroutine_loop aw body s res w = Some (Inl e, w1)"
  by (subst await_coroutine_loop.simps) simp

section \<open>The dispatch adapter\<close>


lemma chose_impl_coroutine:
  "get_session_implement E w = (Inr CoroutineBasedSession, w0) \<Longrightarrow>
   chose_impl E gen_func body args w = Some (Inr (Awaitable (gen_func args)), w0)"
  by (simp add: chose_impl_def to_coroutine_def)

lemma chose_impl_sync:
  "get_session_implement E w = (Inr cls, w0) \<Longrightarrow> cls \<noteq> CoroutineBasedSession \<Longrightarrow>
   chose_impl E gen_func body args w =
     (case run_as_function_loop body (gen_func args) (Val PNone) w0 of
        None \<Rightarrow> None
      | Some (Inl e, w2) \<Rightarrow> Some (Inl e, w2)
      | Some (Inr r, w2) \<Rightarrow> Some (Inr (Direct r), w2))"
  by (simp add: chose_impl_def run_as_function_def)

text \<open>
  Claim C2. Let the adapter resolve the class \<open>cls\<close>. If \<open>cls\<close> is
  \<^verbatim>\<open>CoroutineBasedSession\<close>, the wrapper returns the coroutine object of the generator, which
  has not run, and awaiting it gives the value the generator returns once each awaitable it
  yielded has been awaited and its result sent in. For any other class the wrapper returns
  directly the value the generator returns once each value it yielded has been sent back.
\<close>

theorem chose_impl_dispatch:
  assumes res: "get_session_implement E w = (Inr cls, w0)"
  shows "(cls = CoroutineBasedSession \<longrightarrow>
            chose_impl E gen_func body args w = Some (Inr (Awaitable (gen_func args)), w0)
          \<and> (\<forall>aw n s r wn v w'.
                awaited aw body n (gen_func args) (Val PNone) w0 = Some (s, r, wn)
                \<and> body s r wn = Some (GReturn v, w')
                \<longrightarrow> await_coroutine aw body (gen_func args) w0 = Some (Inr v, w')))
       \<and> (cls \<noteq> CoroutineBasedSession \<longrightarrow>
            (\<forall>n s r wn v w'.
                sent_back body n (gen_func args) (Val PNone) w0 = Some (s, r, wn)
                \<and> body s r wn = Some (GReturn v, w')
                \<longrightarrow> chose_impl E gen_func body args w = Some (Inr (Direct v), w')))"
proof (intro conjI impI allI)
  assume "cls = CoroutineBasedSession"
  with res show "chose_impl E gen_func body args w = Some (Inr (Awaitable (gen_func args)), w0)"
    by (simp add: chose_impl_coroutine)
next
  fix aw n s r wn v w'
  assume a: "awaited aw body n (gen_func args) (Val PNone) w0 = Some (s, r, wn)
             \<and> body s r wn = Some (GReturn v, w')"
  then have "await_coroutine_loop aw body (gen_func args) (Val PNone) w0
               = await_coroutine_loop aw body s r wn"
    by (intro await_loop_awaited[where n = n]) simp
  also have "\<dots> = Some (Inr v, w')" using a by (simp add: await_loop_return)
  finally show "await_coroutine aw body (gen_func args) w0 = Some (Inr v, w')"
    by (simp add: await_coroutine_def)
next
  fix n s r wn v w'
  assume sync: "cls \<noteq> CoroutineBasedSession"
  assume a: "sent_back body n (gen_func args) (Val PNone) w0 = Some (s, r, wn)
             \<and> body s r wn = Some (GReturn v, w')"
  then have "run_as_function_loop body (gen_func args) (Val PNone) w0
               = run_as_function_loop body s r wn"
    by (intro run_loop_sent_back[where n = n]) simp
  also have "\<dots> = Some (Inr v, w')" using a by (simp add: run_loop_return)
  finally show "chose_impl E gen_func body args w = Some (Inr (Direct v), w')"
    using res sync by (simp add: chose_impl_sync)
qed

text \<open>The suspension primitive under a class other than \<^verbatim>\<open>CoroutineBasedSession\<close>: it
  looks the session up and calls its \<^verbatim>\<open>next_client_event\<close> once.\<close>

lemma next_client_event_sync:
  assumes "get_session_implement E w = (Inr cls, w0)" and "cls \<noteq> CoroutineBasedSession"
  shows "next_client_event E w =
     (case get_current_session E w0 of
        (Inl e, w1) \<Rightarrow> Some (Inl e, w1)
      | (Inr sess, w1) \<Rightarrow>
          (case session_next_client_event E sess (ext w1) of
             (Inl e, x) \<Rightarrow> Some (Inl e, w1\<lparr>ext := x\<rparr>)
           | (Inr c, x) \<Rightarrow> Some (Inr (Direct c), w1\<lparr>ext := x\<rparr>)))"
proof -
  obtain r1 w1 where g: "get_current_session E w0 = (r1, w1)"
    by (cases "get_current_session E w0")
  show ?thesis
  proof (cases r1)
    case (Inl e)
    then have "next_client_event_body E NceStart (Val PNone) w0 = Some (GRaise e, w1)"
      using g by (simp add: next_client_event_body_def)
    then have "run_as_function_loop (next_client_event_body E) NceStart (Val PNone) w0
                 = Some (Inl e, w1)" by (rule run_loop_raise)
    then show ?thesis using assms g Inl by (simp add: next_client_event_def chose_impl_sync)
  next
    case (Inr sess)
    obtain r2 x where p: "session_next_client_event E sess (ext w1) = (r2, x)"
      by (cases "session_next_client_event E sess (ext w1)")
    show ?thesis
    proof (cases r2)
      case (Inl e)
      then have "next_client_event_body E NceStart (Val PNone) w0
                   = Some (GRaise e, w1\<lparr>ext := x\<rparr>)"
        using g Inr p by (simp add: next_client_event_body_def)
      then have "run_as_function_loop (next_client_event_body E) NceStart (Val PNone) w0
                   = Some (Inl e, w1\<lparr>ext := x\<rparr>)" by (rule run_loop_raise)
      then show ?thesis
        using assms g Inr p Inl by (simp add: next_client_event_def chose_impl_sync)
    next
      case c: (Inr c)
      then have "next_client_event_body E NceStart (Val PNone) w0
                   = Some (GYield c NceYielded, w1\<lparr>ext := x\<rparr>)"
        using g Inr p by (simp add: next_client_event_body_def)
      then have "run_as_function_loop (next_client_event_body E) NceStart (Val PNone) w0
                   = run_as_function_loop (next_client_event_body E) NceYielded c
                       (w1\<lparr>ext := x\<rparr>)"
        by (rule run_loop_yield)
      also have "\<dots> = Some (Inr c, w1\<lparr>ext := x\<rparr>)"
        by (rule run_loop_return) (simp add: next_client_event_body_def)
      finally show ?thesis
        using assms g Inr p c by (simp add: next_client_event_def chose_impl_sync)
    qed
  qed
qed

text \<open>The concrete environment with one thread-backed session.\<close>

lemma stream_resolve:
  "active_session_cls w = [cls] \<Longrightarrow>
   get_session_implement (stream_env recognised inbound) w = (Inr cls, w)"
  by (simp add: get_session_implement_def)

lemma stream_next:
  assumes "active_session_cls w = [ThreadBasedSession]"
  shows "next_client_event (stream_env [ThreadBasedSession] inbound) w =
     Some (case inbound (delivered (ext w)) of Inl e \<Rightarrow> Inl e | Inr c \<Rightarrow> Inr (Direct c),
           w\<lparr>ext := (ext w)\<lparr>delivered := Suc (delivered (ext w))\<rparr>\<rparr>)"
proof -
  have r: "get_session_implement (stream_env [ThreadBasedSession] inbound) w
             = (Inr ThreadBasedSession, w)"
    using assms by (rule stream_resolve)
  show ?thesis
    by (simp add: next_client_event_sync[OF r] get_current_session_def r)
       (simp add: stream_env_def split: sum.splits)
qed

lemma thread_world_resolve:
  "get_session_implement (stream_env [ThreadBasedSession] inbound) (thread_world k)
     = (Inr ThreadBasedSession, thread_world k)"
  by (simp add: stream_resolve thread_world_def)



theorem chose_impl_dispatch_witness:
  "get_session_implement (stream_env [ThreadBasedSession] two_events_then_closed) (thread_world 0)
     = (Inr ThreadBasedSession, thread_world 0)
   \<and> chose_impl (stream_env [ThreadBasedSession] two_events_then_closed)
        (\<lambda>_::unit. NceStart)
        (next_client_event_body (stream_env [ThreadBasedSession] two_events_then_closed))
        () (thread_world 0)
       = Some (Inr (Direct (Event (js_event (PInt 0)))), thread_world 1)
   \<and> get_session_implement (stream_env [CoroutineBasedSession] futures)
        (world0 [CoroutineBasedSession])
       = (Inr CoroutineBasedSession, world0 [CoroutineBasedSession])
   \<and> chose_impl (stream_env [CoroutineBasedSession] futures)
        (\<lambda>_::unit. NceStart)
        (next_client_event_body (stream_env [CoroutineBasedSession] futures))
        () (world0 [CoroutineBasedSession])
       = Some (Inr (Awaitable NceStart), world0 [CoroutineBasedSession])
   \<and> await_coroutine completes
        (next_client_event_body (stream_env [CoroutineBasedSession] futures))
        NceStart (world0 [CoroutineBasedSession])
       = Some (Inr (Event (js_event (PInt 2))),
               (world0 [CoroutineBasedSession])\<lparr>ext := \<lparr>servers = 0, delivered = 1\<rparr>\<rparr>)"
proof -
  let ?T = "stream_env [ThreadBasedSession] two_events_then_closed"
  let ?C = "stream_env [CoroutineBasedSession] futures"
  let ?wc = "world0 [CoroutineBasedSession]"
  let ?wc1 = "?wc\<lparr>ext := \<lparr>servers = 0, delivered = 1\<rparr>\<rparr>"
  have rt: "get_session_implement ?T (thread_world 0) = (Inr ThreadBasedSession, thread_world 0)"
    by (rule thread_world_resolve)
  have rc: "get_session_implement ?C ?wc = (Inr CoroutineBasedSession, ?wc)"
    by (simp add: stream_resolve world0_def)
  have t1: "next_client_event_body ?T NceStart (Val PNone) (thread_world 0)
              = Some (GYield (Event (js_event (PInt 0))) NceYielded, thread_world 1)"
    by (simp add: next_client_event_body_def get_current_session_def rt)
       (simp add: stream_env_def thread_world_def two_events_then_closed_def)
  have t2: "next_client_event_body ?T NceYielded (Event (js_event (PInt 0))) (thread_world 1)
              = Some (GReturn (Event (js_event (PInt 0))), thread_world 1)"
    by (simp add: next_client_event_body_def)
  have c1: "next_client_event_body ?C NceStart (Val PNone) ?wc
              = Some (GYield (Opaque 0) NceYielded, ?wc1)"
    by (simp add: next_client_event_body_def get_current_session_def rc)
       (simp add: stream_env_def world0_def futures_def)
  have c2: "next_client_event_body ?C NceYielded (Event (js_event (PInt 2))) ?wc1
              = Some (GReturn (Event (js_event (PInt 2))), ?wc1)"
    by (simp add: next_client_event_body_def)
  have sync: "chose_impl ?T (\<lambda>_::unit. NceStart) (next_client_event_body ?T) () (thread_world 0)
       = Some (Inr (Direct (Event (js_event (PInt 0)))), thread_world 1)"
    using chose_impl_dispatch[OF rt,
        where gen_func = "\<lambda>_::unit. NceStart"
          and body = "next_client_event_body ?T" and args = "()",
        THEN conjunct2, rule_format,
        where n = "Suc 0" and s = NceYielded and r = "Event (js_event (PInt 0))" and wn = "thread_world 1"
          and v = "Event (js_event (PInt 0))" and w' = "thread_world 1"]
      t1 t2 by simp
  have co: "chose_impl ?C (\<lambda>_::unit. NceStart) (next_client_event_body ?C) () ?wc
       = Some (Inr (Awaitable NceStart), ?wc)"
    using chose_impl_dispatch[OF rc,
        where gen_func = "\<lambda>_::unit. NceStart" and body = "next_client_event_body ?C"
          and args = "()", THEN conjunct1, rule_format, THEN conjunct1]
    by simp
  have aw: "await_coroutine completes (next_client_event_body ?C) NceStart ?wc
       = Some (Inr (Event (js_event (PInt 2))), ?wc1)"
    using chose_impl_dispatch[OF rc,
        where gen_func = "\<lambda>_::unit. NceStart"
          and body = "next_client_event_body ?C" and args = "()",
        THEN conjunct1, rule_format, THEN conjunct2, rule_format,
        where n = "Suc 0" and aw = completes
          and s = NceYielded and r = "Event (js_event (PInt 2))" and wn = ?wc1
          and v = "Event (js_event (PInt 2))" and w' = ?wc1]
      c1 c2 by (simp add: completes_def)
  from rt rc sync co aw show ?thesis by simp
qed

section \<open>\<^verbatim>\<open>hold\<close>\<close>









lemma stream_resolve_both:
  "active_session_cls w = [CoroutineBasedSession, ThreadBasedSession] \<Longrightarrow>
   get_session_implement (stream_env [CoroutineBasedSession] inbound) w
     = (Inr CoroutineBasedSession, w)"
  by (simp add: get_session_implement_def) (simp add: stream_env_def)

lemma stream_next_both:
  "active_session_cls w = [CoroutineBasedSession, ThreadBasedSession] \<Longrightarrow>
   next_client_event (stream_env [CoroutineBasedSession] inbound) w
     = Some (Inr (Awaitable NceStart), w)"
  by (simp add: next_client_event_def chose_impl_coroutine stream_resolve_both)




section \<open>\<^verbatim>\<open>eval_js\<close>\<close>

text \<open>Resolution and the suspension primitive send nothing.\<close>

lemma get_session_implement_outbox:
  "get_session_implement E w = (r, w') \<Longrightarrow> outbox w' = outbox w"
  by (auto simp: get_session_implement_def start_script_mode_server_def Let_def
      split: if_splits option.splits)

lemma get_current_session_outbox:
  "get_current_session E w = (r, w') \<Longrightarrow> outbox w' = outbox w"
  by (auto simp: get_current_session_def split: prod.splits sum.splits option.splits
      dest: get_session_implement_outbox)

lemma next_client_event_body_outbox:
  "next_client_event_body E s res w = Some (g, w') \<Longrightarrow> outbox w' = outbox w"
  by (auto simp: next_client_event_body_def
      split: nce_state.splits prod.splits sum.splits
      dest: get_current_session_outbox)

lemma run_loop_outbox:
  assumes "run_as_function_loop body s res w = Some y"
      and "\<And>s res w g w'. body s res w = Some (g, w') \<Longrightarrow> outbox w' = outbox w"
  shows "outbox (snd y) = outbox w"
  using assms
proof (induct body s res w y rule: run_as_function_loop.raw_induct[rotated, consumes 1])
  case 1: (1 run body s res w y)
  show ?case
  proof (cases "body s res w")
    case None
    with 1(2) show ?thesis by simp
  next
    case (Some p)
    obtain g w1 where p: "p = (g, w1)" by (cases p)
    have o1: "outbox w1 = outbox w" using 1(3) Some p by blast
    show ?thesis
    proof (cases g)
      case (GYield c s')
      with 1(2) Some p have "run body s' c w1 = Some y" by simp
      from 1(1)[OF this 1(3)] o1 show ?thesis by simp
    next
      case (GReturn r)
      with 1(2) Some p o1 show ?thesis by auto
    next
      case (GRaise e)
      with 1(2) Some p o1 show ?thesis by auto
    qed
  qed
qed

lemma next_client_event_outbox:
  assumes "next_client_event E w = Some (r, w')"
  shows "outbox w' = outbox w"
proof -
  obtain r0 w0 where g: "get_session_implement E w = (r0, w0)"
    by (cases "get_session_implement E w")
  then have o0: "outbox w0 = outbox w" by (rule get_session_implement_outbox)
  show ?thesis
  proof (cases r0)
    case (Inl e)
    with assms g o0 show ?thesis by (auto simp: next_client_event_def chose_impl_def)
  next
    case (Inr cls)
    show ?thesis
    proof (cases "cls = CoroutineBasedSession")
      case True
      with assms g Inr o0 show ?thesis by (auto simp: next_client_event_def chose_impl_def)
    next
      case False
      from assms g Inr False obtain y where
        run: "run_as_function_loop (next_client_event_body E) NceStart (Val PNone) w0 = Some y"
        and y: "snd y = w'"
        by (auto simp: next_client_event_def chose_impl_def run_as_function_def
            split: option.splits prod.splits sum.splits)
      from run_loop_outbox[OF run next_client_event_body_outbox] y o0 show ?thesis by simp
    qed
  qed
qed

text \<open>What \<^verbatim>\<open>send_msg\<close> and \<^verbatim>\<open>run_js\<close> do, by the outcome of the session lookup.\<close>

lemma send_msg_found:
  "get_current_session E w = (Inr sess, w1) \<Longrightarrow>
   send_msg E cmd spec w = (Inr PNone, w1\<lparr>outbox := outbox w1 @ [(sess, Msg cmd spec)]\<rparr>)"
  by (simp add: send_msg_def)

lemma send_msg_raises:
  "get_current_session E w = (Inl e, w1) \<Longrightarrow> send_msg E cmd spec w = (Inl e, w1)"
  by (simp add: send_msg_def)

lemma run_js_found:
  "binds ''code_'' args \<Longrightarrow> get_current_session E w = (Inr sess, w1) \<Longrightarrow>
   run_js E code args w =
     (Inr PNone,
      w1\<lparr>outbox := outbox w1 @
            [(sess, Msg ''run_script'' (PDict [(''code'', PStr code), (''args'', PDict args)]))]\<rparr>)"
  by (simp add: run_js_def send_msg_found)

lemma run_js_raises:
  "binds ''code_'' args \<Longrightarrow> get_current_session E w = (Inl e, w1) \<Longrightarrow>
   run_js E code args w = (Inl e, w1)"
  by (simp add: run_js_def send_msg_raises)

lemma eval_js_chose:
  "binds ''expression_'' args \<Longrightarrow>
   eval_js E expression args w =
     chose_impl E (\<lambda>(e, a). EvalJsStart e a) (eval_js_body E) (expression, args) w"
  by (simp add: eval_js_def)

lemma eval_js_waiting:
  "eval_js_body E EvalJsWaiting (Event ev) w2
     = Some (if event ev = ''js_yield'' then GReturn (Val (data ev))
             else GRaise (AssertionError internal_error_msg), w2)"
  by (simp add: eval_js_body_def)

text \<open>
  Claim C8, as amended. Let the keyword arguments bind (none is named \<^verbatim>\<open>expression_\<close> or
  \<^verbatim>\<open>code_\<close>) and let the adapter of \<^verbatim>\<open>eval_js\<close> resolve the class \<open>cls\<close>.
  \<^item> If \<open>cls\<close> is not \<^verbatim>\<open>CoroutineBasedSession\<close>, the call runs the generator. When the
    lookup of the current session raises, \<^verbatim>\<open>eval_js\<close> raises that exception and nothing
    has been sent. When it finds the session and the one call of \<^verbatim>\<open>next_client_event()\<close>,
    made after the script has been sent, returns the event \<open>ev\<close>, the call ends in the state
    \<^verbatim>\<open>next_client_event()\<close> left; it returns the \<^verbatim>\<open>data\<close> of \<open>ev\<close>, whatever it is, when
    the kind of \<open>ev\<close> is \<^verbatim>\<open>js_yield\<close>, and raises the \<^verbatim>\<open>AssertionError\<close> of lines 232-233
    otherwise. Exactly one message has been sent, on that session: the \<^verbatim>\<open>run_script\<close>
    message with the script and the arguments.
  \<^item> If \<open>cls\<close> is \<^verbatim>\<open>CoroutineBasedSession\<close>, the call returns the coroutine object and has
    sent nothing; awaiting it where the current session is found sends the one
    message, awaits the one awaitable that \<^verbatim>\<open>next_client_event()\<close> returned, and treats
    the event \<open>ev\<close> it completes with in the same way.
\<close>

theorem eval_js_reply:
  fixes E :: "('x, 't) env"
  assumes res: "get_session_implement E w = (Inr cls, w0)"
      and bound: "binds ''expression_'' args \<and> binds ''code_'' args"
  shows "(cls \<noteq> CoroutineBasedSession \<longrightarrow>
            (\<forall>e w1. get_current_session E w0 = (Inl e, w1)
               \<longrightarrow> eval_js E expression args w = Some (Inl e, w1) \<and> outbox w1 = outbox w)
          \<and> (\<forall>sess w1 ev w2.
               get_current_session E w0 = (Inr sess, w1)
               \<and> next_client_event E
                    (w1\<lparr>outbox := outbox w1 @
                       [(sess, Msg ''run_script''
                          (PDict [(''code'', PStr (eval_js_script E expression)),
                                  (''args'', PDict args)]))]\<rparr>)
                  = Some (Inr (Direct (Event ev)), w2)
               \<longrightarrow> eval_js E expression args w =
                     Some (if event ev = ''js_yield'' then Inr (Direct (Val (data ev)))
                           else Inl (AssertionError internal_error_msg), w2)
                 \<and> outbox w2 = outbox w @
                     [(sess, Msg ''run_script''
                        (PDict [(''code'', PStr (eval_js_script E expression)),
                                (''args'', PDict args)]))]))
       \<and> (cls = CoroutineBasedSession \<longrightarrow>
            eval_js E expression args w
              = Some (Inr (Awaitable (EvalJsStart expression args)), w0)
          \<and> outbox w0 = outbox w
          \<and> (\<forall>aw sess w1 r w2 ev w3.
               get_current_session E w0 = (Inr sess, w1)
               \<and> next_client_event E
                    (w1\<lparr>outbox := outbox w1 @
                       [(sess, Msg ''run_script''
                          (PDict [(''code'', PStr (eval_js_script E expression)),
                                  (''args'', PDict args)]))]\<rparr>)
                  = Some (Inr r, w2)
               \<and> aw (yielded r) w2 = Some (Event ev, w3)
               \<longrightarrow> await_coroutine aw (eval_js_body E) (EvalJsStart expression args) w0 =
                     Some (if event ev = ''js_yield'' then Inr (Val (data ev))
                           else Inl (AssertionError internal_error_msg), w3)
                 \<and> outbox w2 = outbox w @
                     [(sess, Msg ''run_script''
                        (PDict [(''code'', PStr (eval_js_script E expression)),
                                (''args'', PDict args)]))]))"
proof -
  let ?m = "Msg ''run_script''
              (PDict [(''code'', PStr (eval_js_script E expression)), (''args'', PDict args)])"
  from bound have be: "binds ''expression_'' args" and bc: "binds ''code_'' args" by simp_all
  have o0: "outbox w0 = outbox w" using res by (rule get_session_implement_outbox)
  have sent: "\<And>sess w1 r w2.
      get_current_session E w0 = (Inr sess, w1) \<Longrightarrow>
      next_client_event E (w1\<lparr>outbox := outbox w1 @ [(sess, ?m)]\<rparr>) = Some (r, w2) \<Longrightarrow>
      outbox w2 = outbox w @ [(sess, ?m)]"
  proof -
    fix sess w1 r and w2 :: "('x, 't) world"
    assume f: "get_current_session E w0 = (Inr sess, w1)"
       and n: "next_client_event E (w1\<lparr>outbox := outbox w1 @ [(sess, ?m)]\<rparr>) = Some (r, w2)"
    from f have "outbox w1 = outbox w0" by (rule get_current_session_outbox)
    with next_client_event_outbox[OF n] o0 show "outbox w2 = outbox w @ [(sess, ?m)]" by simp
  qed
  show ?thesis
  proof (intro conjI impI allI)
    fix e w1
    assume sync: "cls \<noteq> CoroutineBasedSession"
       and f: "get_current_session E w0 = (Inl e, w1)"
    have "eval_js_body E (EvalJsStart expression args) (Val PNone) w0 = Some (GRaise e, w1)"
      using run_js_raises[OF bc f] by (simp add: eval_js_body_def Let_def)
    then have "run_as_function_loop (eval_js_body E) (EvalJsStart expression args) (Val PNone) w0
                 = Some (Inl e, w1)" by (rule run_loop_raise)
    then show "eval_js E expression args w = Some (Inl e, w1)"
      using res sync by (simp add: eval_js_chose[OF be] chose_impl_sync)
    from f have "outbox w1 = outbox w0" by (rule get_current_session_outbox)
    with o0 show "outbox w1 = outbox w" by simp
  next
    fix sess w1 ev and w2 :: "('x, 't) world"
    assume sync: "cls \<noteq> CoroutineBasedSession"
    assume a: "get_current_session E w0 = (Inr sess, w1)
               \<and> next_client_event E (w1\<lparr>outbox := outbox w1 @ [(sess, ?m)]\<rparr>)
                   = Some (Inr (Direct (Event ev)), w2)"
    then have f: "get_current_session E w0 = (Inr sess, w1)"
      and n: "next_client_event E (w1\<lparr>outbox := outbox w1 @ [(sess, ?m)]\<rparr>)
                = Some (Inr (Direct (Event ev)), w2)" by simp_all
    have step1: "eval_js_body E (EvalJsStart expression args) (Val PNone) w0
                   = Some (GYield (Event ev) EvalJsWaiting, w2)"
      using run_js_found[OF bc f] n by (simp add: eval_js_body_def Let_def)
    have "run_as_function_loop (eval_js_body E) (EvalJsStart expression args) (Val PNone) w0
            = run_as_function_loop (eval_js_body E) EvalJsWaiting (Event ev) w2"
      using step1 by (rule run_loop_yield)
    also have "\<dots> = Some (if event ev = ''js_yield'' then Inr (Val (data ev))
                           else Inl (AssertionError internal_error_msg), w2)"
      using eval_js_waiting[of E ev w2] by (simp add: run_loop_return run_loop_raise)
    finally show "eval_js E expression args w =
             Some (if event ev = ''js_yield'' then Inr (Direct (Val (data ev)))
                   else Inl (AssertionError internal_error_msg), w2)"
      using res sync by (simp add: eval_js_chose[OF be] chose_impl_sync)
    from sent[OF f n] show "outbox w2 = outbox w @ [(sess, ?m)]" .
  next
    assume "cls = CoroutineBasedSession"
    with res show "eval_js E expression args w
              = Some (Inr (Awaitable (EvalJsStart expression args)), w0)"
      by (simp add: eval_js_chose[OF be] chose_impl_coroutine)
  next
    show "outbox w0 = outbox w" by (rule o0)
  next
    fix aw sess w1 r w2 ev and w3 :: "('x, 't) world"
    assume a: "get_current_session E w0 = (Inr sess, w1)
               \<and> next_client_event E (w1\<lparr>outbox := outbox w1 @ [(sess, ?m)]\<rparr>)
                   = Some (Inr r, w2)
               \<and> aw (yielded r) w2 = Some (Event ev, w3)"
    then have f: "get_current_session E w0 = (Inr sess, w1)"
      and n: "next_client_event E (w1\<lparr>outbox := outbox w1 @ [(sess, ?m)]\<rparr>) = Some (Inr r, w2)"
      and a2: "aw (yielded r) w2 = Some (Event ev, w3)" by simp_all
    have step1: "eval_js_body E (EvalJsStart expression args) (Val PNone) w0
                   = Some (GYield (yielded r) EvalJsWaiting, w2)"
      using run_js_found[OF bc f] n by (simp add: eval_js_body_def Let_def)
    have "await_coroutine_loop aw (eval_js_body E) (EvalJsStart expression args) (Val PNone) w0
            = await_coroutine_loop aw (eval_js_body E) EvalJsWaiting (Event ev) w3"
      using step1 a2 by (rule await_loop_yield)
    also have "\<dots> = Some (if event ev = ''js_yield'' then Inr (Val (data ev))
                           else Inl (AssertionError internal_error_msg), w3)"
      using eval_js_waiting[of E ev w3] by (simp add: await_loop_return await_loop_raise)
    finally show "await_coroutine aw (eval_js_body E) (EvalJsStart expression args) w0 =
             Some (if event ev = ''js_yield'' then Inr (Val (data ev))
                   else Inl (AssertionError internal_error_msg), w3)"
      by (simp add: await_coroutine_def)
    from sent[OF f n] show "outbox w2 = outbox w @ [(sess, ?m)]" .
  qed
qed

lemma stream_current:
  "active_session_cls w = [cls] \<Longrightarrow>
   get_current_session (stream_env recognised inbound) w
     = (if cls \<in> set recognised then Inr 0 else Inl SessionNotFoundException, w)"
  by (simp add: get_current_session_def stream_resolve) (simp add: stream_env_def)

lemma stream_current_both:
  "active_session_cls w = [CoroutineBasedSession, ThreadBasedSession] \<Longrightarrow>
   get_current_session (stream_env [CoroutineBasedSession] inbound) w = (Inr 0, w)"
  by (simp add: get_current_session_def stream_resolve_both) (simp add: stream_env_def)

theorem eval_js_reply_witness:
  "get_session_implement (stream_env [ThreadBasedSession] null_reply) (thread_world 0)
     = (Inr ThreadBasedSession, thread_world 0)
   \<and> binds ''expression_'' [(''b'', PInt 100)] \<and> binds ''code_'' [(''b'', PInt 100)]
   \<and> eval_js (stream_env [ThreadBasedSession] null_reply) ''a'' [(''b'', PInt 100)]
        (thread_world 0)
       = Some (Inr (Direct (Val PNone)),
               \<lparr>active_session_cls = [ThreadBasedSession],
                outbox = [(0, Msg ''run_script''
                   (PDict [(''code'', PStr (eval_js_script
                                (stream_env [ThreadBasedSession] null_reply) ''a'')),
                           (''args'', PDict [(''b'', PInt 100)])]))],
                ext = \<lparr>servers = 0, delivered = 1\<rparr>\<rparr>)
   \<and> eval_js (stream_env [ThreadBasedSession] callback_event) ''a'' [(''b'', PInt 100)]
        (thread_world 0)
       = Some (Inl (AssertionError internal_error_msg),
               \<lparr>active_session_cls = [ThreadBasedSession],
                outbox = [(0, Msg ''run_script''
                   (PDict [(''code'', PStr (eval_js_script
                                (stream_env [ThreadBasedSession] callback_event) ''a'')),
                           (''args'', PDict [(''b'', PInt 100)])]))],
                ext = \<lparr>servers = 0, delivered = 1\<rparr>\<rparr>)
   \<and> eval_js (stream_env [] null_reply) ''a'' [(''b'', PInt 100)] (thread_world 0)
       = Some (Inl SessionNotFoundException, thread_world 0)
   \<and> eval_js (stream_env [CoroutineBasedSession] futures) ''a'' [(''b'', PInt 100)]
        (both_world 0)
       = Some (Inr (Awaitable (EvalJsStart ''a'' [(''b'', PInt 100)])), both_world 0)
   \<and> await_coroutine delivers (eval_js_body (stream_env [CoroutineBasedSession] futures))
        (EvalJsStart ''a'' [(''b'', PInt 100)]) (both_world 0)
       = Some (Inr (Val (PInt 0)),
               \<lparr>active_session_cls = [CoroutineBasedSession, ThreadBasedSession],
                outbox = [(0, Msg ''run_script''
                   (PDict [(''code'', PStr (eval_js_script
                                (stream_env [CoroutineBasedSession] futures) ''a'')),
                           (''args'', PDict [(''b'', PInt 100)])]))],
                ext = \<lparr>servers = 0, delivered = 1\<rparr>\<rparr>)"
proof -
  let ?N = "stream_env [ThreadBasedSession] null_reply"
  let ?K = "stream_env [ThreadBasedSession] callback_event"
  let ?U = "stream_env [] null_reply"
  let ?G = "stream_env [CoroutineBasedSession] futures"
  let ?args = "[(''b'', PInt 100)]"
  let ?sent = "\<lambda>E. (thread_world 0)\<lparr>outbox := outbox (thread_world 0) @
       [(0, Msg ''run_script''
           (PDict [(''code'', PStr (eval_js_script E ''a'')), (''args'', PDict ?args)]))]\<rparr>"
  let ?sentg = "(both_world 0)\<lparr>outbox := outbox (both_world 0) @
       [(0, Msg ''run_script''
           (PDict [(''code'', PStr (eval_js_script ?G ''a'')), (''args'', PDict ?args)]))]\<rparr>"
  have bound: "binds ''expression_'' ?args \<and> binds ''code_'' ?args" by (simp add: binds_def)
  have cn: "get_current_session ?N (thread_world 0) = (Inr 0, thread_world 0)"
    by (simp add: stream_current thread_world_def)
  have ck: "get_current_session ?K (thread_world 0) = (Inr 0, thread_world 0)"
    by (simp add: stream_current thread_world_def)
  have cu: "get_current_session ?U (thread_world 0)
              = (Inl SessionNotFoundException, thread_world 0)"
    by (simp add: stream_current thread_world_def)
  have ru: "get_session_implement ?U (thread_world 0) = (Inr ThreadBasedSession, thread_world 0)"
    by (simp add: stream_resolve thread_world_def)
  have n1: "next_client_event ?N (?sent ?N)
              = Some (Inr (Direct (Event (js_event PNone))),
                      (?sent ?N)\<lparr>ext := \<lparr>servers = 0, delivered = 1\<rparr>\<rparr>)"
    by (simp add: stream_next thread_world_def null_reply_def)
  have k1: "next_client_event ?K (?sent ?K)
              = Some (Inr (Direct (Event \<lparr>event = ''callback'', task_id = ''main'', data = PNone\<rparr>)),
                      (?sent ?K)\<lparr>ext := \<lparr>servers = 0, delivered = 1\<rparr>\<rparr>)"
    by (simp add: stream_next thread_world_def callback_event_def)
  have a: "eval_js ?N ''a'' ?args (thread_world 0)
             = Some (Inr (Direct (Val PNone)),
                     (?sent ?N)\<lparr>ext := \<lparr>servers = 0, delivered = 1\<rparr>\<rparr>)"
    using eval_js_reply[OF thread_world_resolve[of null_reply 0] bound,
            where expression = "''a''",
            THEN conjunct1, rule_format, THEN conjunct2, rule_format,
            where sess = 0 and ?w1.0 = "thread_world 0" and ev = "js_event PNone"
              and ?w2.0 = "(?sent ?N)\<lparr>ext := \<lparr>servers = 0, delivered = 1\<rparr>\<rparr>",
            THEN conjunct1] cn n1
    by (simp add: js_event_def)
  have b: "eval_js ?K ''a'' ?args (thread_world 0)
             = Some (Inl (AssertionError internal_error_msg),
                     (?sent ?K)\<lparr>ext := \<lparr>servers = 0, delivered = 1\<rparr>\<rparr>)"
    using eval_js_reply[OF thread_world_resolve[of callback_event 0] bound,
            where expression = "''a''",
            THEN conjunct1, rule_format, THEN conjunct2, rule_format,
            where sess = 0 and ?w1.0 = "thread_world 0"
              and ev = "\<lparr>event = ''callback'', task_id = ''main'', data = PNone\<rparr>"
              and ?w2.0 = "(?sent ?K)\<lparr>ext := \<lparr>servers = 0, delivered = 1\<rparr>\<rparr>",
            THEN conjunct1] ck k1
    by simp
  have u: "eval_js ?U ''a'' ?args (thread_world 0)
             = Some (Inl SessionNotFoundException, thread_world 0)"
    using eval_js_reply[OF ru bound, where expression = "''a''",
            THEN conjunct1, rule_format, THEN conjunct1, rule_format,
            where e = SessionNotFoundException and ?w1.0 = "thread_world 0",
            THEN conjunct1] cu
    by simp
  have rg: "get_session_implement ?G (both_world 0) = (Inr CoroutineBasedSession, both_world 0)"
    by (simp add: stream_resolve_both both_world_def)
  have cg: "get_current_session ?G (both_world 0) = (Inr 0, both_world 0)"
    by (simp add: stream_current_both both_world_def)
  have g1: "next_client_event ?G ?sentg = Some (Inr (Awaitable NceStart), ?sentg)"
    by (simp add: stream_next_both both_world_def)
  have g2: "delivers (yielded (Awaitable NceStart)) ?sentg
              = Some (Event (js_event (PInt 0)),
                      ?sentg\<lparr>ext := \<lparr>servers = 0, delivered = 1\<rparr>\<rparr>)"
    by (simp add: delivers_def both_world_def)
  have c: "eval_js ?G ''a'' ?args (both_world 0)
             = Some (Inr (Awaitable (EvalJsStart ''a'' ?args)), both_world 0)"
    using eval_js_reply[OF rg bound, where expression = "''a''",
            THEN conjunct2, rule_format, THEN conjunct1]
    by simp
  have d: "await_coroutine delivers (eval_js_body ?G) (EvalJsStart ''a'' ?args) (both_world 0)
             = Some (Inr (Val (PInt 0)), ?sentg\<lparr>ext := \<lparr>servers = 0, delivered = 1\<rparr>\<rparr>)"
    using eval_js_reply[OF rg bound, where expression = "''a''",
            THEN conjunct2, rule_format, THEN conjunct2, THEN conjunct2, rule_format,
            where aw = delivers and sess = 0 and ?w1.0 = "both_world 0"
              and r = "Awaitable NceStart" and ?w2.0 = ?sentg
              and ev = "js_event (PInt 0)"
              and ?w3.0 = "?sentg\<lparr>ext := \<lparr>servers = 0, delivered = 1\<rparr>\<rparr>",
            THEN conjunct1] cg g1 g2
    by (simp add: js_event_def)
  from thread_world_resolve[of null_reply 0] bound a b u c d show ?thesis
    by (simp add: thread_world_def both_world_def)
qed

text \<open>
  The claim as first stated (for every call, one message is sent and one event awaited)
  fails for a keyword argument named \<^verbatim>\<open>code_\<close>: \<^verbatim>\<open>run_js(script, **args)\<close> on line 229
  then gives the parameter \<^verbatim>\<open>code_\<close> of line 170 two values, Python raises \<^verbatim>\<open>TypeError\<close>,
  and \<^verbatim>\<open>eval_js\<close> ends with it in a session that would have replied: no message has been
  sent and no event taken.
\<close>

theorem eval_js_code_argument_counterexample:
  "get_current_session (stream_env [ThreadBasedSession] null_reply) (thread_world 0)
     = (Inr 0, thread_world 0)
   \<and> outbox (thread_world 0) = []
   \<and> eval_js (stream_env [ThreadBasedSession] null_reply) ''a'' [(''code_'', PInt 100)]
        (thread_world 0)
       = Some (Inl (multiple_values ''run_js'' ''code_''), thread_world 0)"
proof -
  let ?N = "stream_env [ThreadBasedSession] null_reply"
  have "eval_js_body ?N (EvalJsStart ''a'' [(''code_'', PInt 100)]) (Val PNone) (thread_world 0)
          = Some (GRaise (multiple_values ''run_js'' ''code_''), thread_world 0)"
    by (simp add: eval_js_body_def run_js_def binds_def)
  then have "run_as_function_loop (eval_js_body ?N) (EvalJsStart ''a'' [(''code_'', PInt 100)])
               (Val PNone) (thread_world 0)
          = Some (Inl (multiple_values ''run_js'' ''code_''), thread_world 0)"
    by (rule run_loop_raise)
  then have "eval_js ?N ''a'' [(''code_'', PInt 100)] (thread_world 0)
       = Some (Inl (multiple_values ''run_js'' ''code_''), thread_world 0)"
    using chose_impl_sync[OF thread_world_resolve[of null_reply 0],
            of "\<lambda>(e, a). EvalJsStart e a" "eval_js_body ?N" "(''a'', [(''code_'', PInt 100)])"]
    by (simp add: eval_js_def binds_def)
  moreover have "get_current_session ?N (thread_world 0) = (Inr 0, thread_world 0)"
    by (simp add: stream_current thread_world_def)
  moreover have "outbox (thread_world 0) = []" by (simp add: thread_world_def)
  ultimately show ?thesis by simp
qed

section \<open>The capability check\<close>

lemma sublist_require: "sublist require_name (impl_error_msg func_name require_name curr_name)"
  unfolding impl_error_msg_def sublist_def
  by (rule exI[of _ "''Only can invoke `'' @ func_name @ ''` in ''"]) simp

lemma sublist_curr: "sublist curr_name (impl_error_msg func_name require_name curr_name)"
  unfolding impl_error_msg_def sublist_def
  by (rule exI[of _ "''Only can invoke `'' @ func_name @ ''` in '' @ require_name
        @ '' context.'' @ '' You are now in ''"]) simp

text \<open>
  Claim C6, as amended. Let the wrapper resolve the class \<open>curr_impl\<close>. If \<open>curr_impl\<close> is
  neither the required class nor derived from it, the call raises a \<^verbatim>\<open>RuntimeError\<close> whose
  message contains the names of both classes, in the state resolution left, whatever
  the wrapped function is: the function is not called. If \<open>curr_impl\<close> is the required class
  or derived from it, the call is the call of the wrapped function on the same arguments.
\<close>

theorem check_session_impl_subclass:
  assumes "get_session_implement E w = (Inr curr_impl, w1)"
  shows "(curr_impl \<noteq> session_type \<and> \<not> derives_from E curr_impl session_type \<longrightarrow>
            check_session_impl E session_type func_name func args w =
              (Inl (RuntimeError
                 (impl_error_msg func_name (cls_name session_type) (cls_name curr_impl))), w1)
            \<and> sublist (cls_name session_type)
                 (impl_error_msg func_name (cls_name session_type) (cls_name curr_impl))
            \<and> sublist (cls_name curr_impl)
                 (impl_error_msg func_name (cls_name session_type) (cls_name curr_impl)))
       \<and> (curr_impl = session_type \<or> derives_from E curr_impl session_type \<longrightarrow>
            check_session_impl E session_type func_name func args w = func args w1)"
  using assms by (simp add: check_session_impl_def issubclass_def sublist_require sublist_curr)

theorem check_session_impl_subclass_witness:
  "get_session_implement (stream_env [ThreadBasedSession] events_for_ever) (thread_world 0)
     = (Inr ThreadBasedSession, thread_world 0)
   \<and> ThreadBasedSession \<noteq> CoroutineBasedSession
   \<and> \<not> derives_from (stream_env [ThreadBasedSession] events_for_ever)
          ThreadBasedSession CoroutineBasedSession
   \<and> run_async (stream_env [ThreadBasedSession] events_for_ever)
        (\<lambda>s c w. (Inr c, w)) (5::nat) (thread_world 0)
       = (Inl (RuntimeError (''Only can invoke `run_async` in CoroutineBasedSession context.''
                 @ '' You are now in ThreadBasedSession context'')), thread_world 0)
   \<and> register_thread (stream_env [ThreadBasedSession] events_for_ever)
        (\<lambda>s t w. (Inr t, w)) (5::nat) (thread_world 0)
       = (Inr 5, thread_world 0)"
proof -
  let ?E = "stream_env [ThreadBasedSession] events_for_ever"
  have r: "get_session_implement ?E (thread_world 0) = (Inr ThreadBasedSession, thread_world 0)"
    by (rule thread_world_resolve)
  have d: "\<not> derives_from ?E ThreadBasedSession CoroutineBasedSession"
    by (simp add: stream_env_def script_mode_derives_def)
  have a: "run_async ?E (\<lambda>s c w. (Inr c, w)) (5::nat) (thread_world 0)
       = (Inl (RuntimeError (''Only can invoke `run_async` in CoroutineBasedSession context.''
                 @ '' You are now in ThreadBasedSession context'')), thread_world 0)"
    unfolding run_async_def
    using check_session_impl_subclass[OF r, where session_type = CoroutineBasedSession
          and func_name = "''run_async''" and args = 5
          and func = "\<lambda>c w0. case get_current_session ?E w0 of
                  (Inl e, w1) \<Rightarrow> (Inl e, w1)
                | (Inr s, w1) \<Rightarrow> (Inr c, w1)",
        THEN conjunct1, rule_format, THEN conjunct1] d
    by (simp add: impl_error_msg_def)
  have b: "register_thread ?E (\<lambda>s t w. (Inr t, w)) (5::nat) (thread_world 0)
       = (Inr 5, thread_world 0)"
    unfolding register_thread_def
    using check_session_impl_subclass[OF r, where session_type = ThreadBasedSession
          and func_name = "''register_thread''" and args = 5
          and func = "\<lambda>t w0. case get_current_session ?E w0 of
                  (Inl e, w1) \<Rightarrow> (Inl e, w1)
                | (Inr s, w1) \<Rightarrow> (Inr t, w1)",
        THEN conjunct2, rule_format]
    by (simp add: get_current_session_def r) (simp add: stream_env_def)
  from r d a b show ?thesis by simp
qed

text \<open>
  The claim as first stated (a current class that differs from the required one is
  refused) fails in script mode: there the current class is \<^verbatim>\<open>ScriptModeSession\<close>, which
  differs from \<^verbatim>\<open>ThreadBasedSession\<close>, and \<^verbatim>\<open>register_thread\<close> calls the session's method
  and returns its result.
\<close>

theorem check_session_impl_differs_counterexample:
  "get_session_implement (stream_env [ScriptModeSession] events_for_ever)
     (world0 [ScriptModeSession])
     = (Inr ScriptModeSession, world0 [ScriptModeSession])
   \<and> ScriptModeSession \<noteq> ThreadBasedSession
   \<and> register_thread (stream_env [ScriptModeSession] events_for_ever)
        (\<lambda>s t w. (Inr t, w)) (5::nat) (world0 [ScriptModeSession])
       = (Inr 5, world0 [ScriptModeSession])"
proof -
  let ?E = "stream_env [ScriptModeSession] events_for_ever"
  have r: "get_session_implement ?E (world0 [ScriptModeSession])
             = (Inr ScriptModeSession, world0 [ScriptModeSession])"
    by (simp add: stream_resolve world0_def)
  have b: "register_thread ?E (\<lambda>s t w. (Inr t, w)) (5::nat) (world0 [ScriptModeSession])
             = (Inr 5, world0 [ScriptModeSession])"
    by (simp add: register_thread_def check_session_impl_def get_current_session_def r
          issubclass_def)
       (simp add: stream_env_def script_mode_derives_def)
  from r b show ?thesis by simp
qed

section \<open>\<^verbatim>\<open>set_env\<close>\<close>

text \<open>
  Claim C9, as amended. With a key that is not one of \<^verbatim>\<open>title\<close>,
  \<^verbatim>\<open>output_animation\<close>, \<^verbatim>\<open>auto_scroll_bottom\<close> and \<^verbatim>\<open>http_pull_interval\<close>, \<^verbatim>\<open>set_env\<close>
  raises \<^verbatim>\<open>AssertionError\<close> and has done nothing else. With keys of these four only, it
  sends the \<^verbatim>\<open>set_env\<close> message with the keyword arguments, on the current session, when
  that session is found; when the lookup of the current session raises, it raises that
  exception and has sent nothing.
\<close>

theorem set_env_keys_checked:
  "(\<not> (\<forall>k \<in> fst ` set env_info.
        k \<in> {''title'', ''output_animation'', ''auto_scroll_bottom'', ''http_pull_interval''})
      \<longrightarrow> set_env E env_info w = (Inl (AssertionError []), w))
   \<and> ((\<forall>k \<in> fst ` set env_info.
        k \<in> {''title'', ''output_animation'', ''auto_scroll_bottom'', ''http_pull_interval''})
      \<longrightarrow> (\<forall>sess w1. get_current_session E w = (Inr sess, w1)
             \<longrightarrow> set_env E env_info w =
                   (Inr PNone,
                    w1\<lparr>outbox := outbox w1 @ [(sess, Msg ''set_env'' (PDict env_info))]\<rparr>)
               \<and> outbox w1 = outbox w)
        \<and> (\<forall>e w1. get_current_session E w = (Inl e, w1)
             \<longrightarrow> set_env E env_info w = (Inl e, w1) \<and> outbox w1 = outbox w))"
  by (auto simp: set_env_def set_env_keys_def list_all_iff send_msg_found send_msg_raises
      dest: get_current_session_outbox)

theorem set_env_keys_checked_witness:
  "get_current_session (stream_env [ThreadBasedSession] events_for_ever) (thread_world 0)
     = (Inr 0, thread_world 0)
   \<and> set_env (stream_env [ThreadBasedSession] events_for_ever)
        [(''title'', PStr ''Awesome PyWebIO!!''), (''output_animation'', PBool False)]
        (thread_world 0)
     = (Inr PNone,
        (thread_world 0)\<lparr>outbox :=
           [(0, Msg ''set_env''
              (PDict [(''title'', PStr ''Awesome PyWebIO!!''),
                      (''output_animation'', PBool False)]))]\<rparr>)
   \<and> set_env (stream_env [ThreadBasedSession] events_for_ever)
        [(''title'', PStr ''t''), (''colour'', PStr ''red'')] (thread_world 0)
     = (Inl (AssertionError []), thread_world 0)
   \<and> get_current_session (stream_env [] events_for_ever) (thread_world 0)
     = (Inl SessionNotFoundException, thread_world 0)
   \<and> set_env (stream_env [] events_for_ever) [(''auto_scroll_bottom'', PBool True)]
        (thread_world 0)
     = (Inl SessionNotFoundException, thread_world 0)"
proof -
  let ?E = "stream_env [ThreadBasedSession] events_for_ever"
  let ?U = "stream_env [] events_for_ever"
  have c: "get_current_session ?E (thread_world 0) = (Inr 0, thread_world 0)"
    by (simp add: stream_current thread_world_def)
  have cu: "get_current_session ?U (thread_world 0)
              = (Inl SessionNotFoundException, thread_world 0)"
    by (simp add: stream_current thread_world_def)
  have k1: "\<forall>k \<in> fst ` set [(''title'', PStr ''Awesome PyWebIO!!''),
                              (''output_animation'', PBool False)].
        k \<in> {''title'', ''output_animation'', ''auto_scroll_bottom'', ''http_pull_interval''}"
    by simp
  have k2: "\<forall>k \<in> fst ` set [(''auto_scroll_bottom'', PBool True)].
        k \<in> {''title'', ''output_animation'', ''auto_scroll_bottom'', ''http_pull_interval''}"
    by simp
  have a: "set_env ?E [(''title'', PStr ''Awesome PyWebIO!!''), (''output_animation'', PBool False)]
      (thread_world 0)
     = (Inr PNone,
        (thread_world 0)\<lparr>outbox :=
           [(0, Msg ''set_env''
              (PDict [(''title'', PStr ''Awesome PyWebIO!!''),
                      (''output_animation'', PBool False)]))]\<rparr>)"
    using set_env_keys_checked
            [of "[(''title'', PStr ''Awesome PyWebIO!!''), (''output_animation'', PBool False)]"
                ?E "thread_world 0", THEN conjunct2, THEN mp, OF k1, THEN conjunct1, rule_format,
             where sess = 0 and ?w1.0 = "thread_world 0", THEN conjunct1] c
    by (simp add: thread_world_def)
  have b: "set_env ?E [(''title'', PStr ''t''), (''colour'', PStr ''red'')] (thread_world 0)
     = (Inl (AssertionError []), thread_world 0)"
    using set_env_keys_checked
            [of "[(''title'', PStr ''t''), (''colour'', PStr ''red'')]" ?E "thread_world 0",
             THEN conjunct1]
    by simp
  have u: "set_env ?U [(''auto_scroll_bottom'', PBool True)] (thread_world 0)
     = (Inl SessionNotFoundException, thread_world 0)"
    using set_env_keys_checked
            [of "[(''auto_scroll_bottom'', PBool True)]" ?U "thread_world 0",
             THEN conjunct2, THEN mp, OF k2, THEN conjunct2, rule_format,
             where e = SessionNotFoundException and ?w1.0 = "thread_world 0", THEN conjunct1] cu
    by simp
  from c a b cu u show ?thesis by simp
qed

text \<open>
  The claim as first stated (the message is sent if and only if every key is allowed)
  fails where no session knows the caller: the key \<^verbatim>\<open>title\<close> is allowed, the lookup of the
  current session raises \<^verbatim>\<open>SessionNotFoundException\<close>, and \<^verbatim>\<open>set_env\<close> raises it with
  nothing sent.
\<close>

theorem set_env_outside_session_counterexample:
  "list_all (\<lambda>k. k \<in> set set_env_keys) (map fst [(''title'', PStr ''t'')])
   \<and> outbox (thread_world 0) = []
   \<and> set_env (stream_env [] events_for_ever) [(''title'', PStr ''t'')] (thread_world 0)
     = (Inl SessionNotFoundException, thread_world 0)"
  by (simp add: set_env_def set_env_keys_def send_msg_def stream_current thread_world_def)

end
